theory Spec2Isabelle
  imports Complex_Main "HOL-Library.Word"
begin

unbundle bit_operations_syntax

section \<open>Errors\<close>

text \<open>
  Every way a call of the modelled C++ can fail to return a value is a constructor here:
  a thrown \<open>Dune::Exception\<close>, a failed \<open>assert\<close>, a read or write outside an array or
  \<open>std::vector\<close> (undefined behaviour in C++), a read of a slot that was never written,
  a template that cannot be instantiated because a specialisation is only declared or a
  static assertion fails, and a division by zero in an exact coordinate type.
\<close>

datatype error =
    Exception string
  | AssertionFailed
  | OutOfRange
  | Uninitialized
  | NotInstantiable
  | DivisionByZero

text \<open>\<open>v[i]\<close> on an array or a \<open>std::vector\<close>: outside the range it is an error value.\<close>

definition get_at :: "'a list \<Rightarrow> nat \<Rightarrow> error + 'a" where
  "get_at xs i = (if i < length xs then Inr (xs ! i) else Inl OutOfRange)"

section \<open>Topology model\<close>

text \<open>
  \<open>topologytypes.hh\<close> is not among the sources; \<open>conversion.hh\<close> names the three type
  constructors \<open>Point\<close>, \<open>Prism< B >\<close> and \<open>Pyramid< B >\<close> in its specialisations.
\<close>

datatype Topology = Point | Prism Topology | Pyramid Topology

fun Topology_dimension :: "Topology \<Rightarrow> nat" where
  "Topology_dimension Point = 0"
| "Topology_dimension (Prism B) = Suc (Topology_dimension B)"
| "Topology_dimension (Pyramid B) = Suc (Topology_dimension B)"

text \<open>
  Modelled from the spec: \<open>Topology< id, dim >::type\<close> of \<open>topologytypes.hh\<close>. Bit \<open>k\<close> of the
  id selects prism versus pyramid at recursion level \<open>k\<close> (\<open>k < dim\<close>), level \<open>dim - 1\<close> being
  the outermost composition; a set bit is a prism. This is the layout \<open>conversion.hh\<close>
  relies on: for dimension 3 it stores the prism at \<open>types_[2]\<close> (ids 4 and 5) and the
  pyramid at \<open>types_[1]\<close> (ids 2 and 3).
\<close>

fun Topology_type :: "nat \<Rightarrow> nat \<Rightarrow> Topology" where
  "Topology_type topologyId 0 = Point"
| "Topology_type topologyId (Suc n) =
     (if bit topologyId n then Prism (Topology_type (topologyId mod 2 ^ n) n)
      else Pyramid (Topology_type (topologyId mod 2 ^ n) n))"

text \<open>\<open>Convert< simplex, dim >::type\<close> and \<open>Convert< cube, dim >::type\<close> of \<open>conversion.hh\<close>.\<close>

fun Convert_simplex :: "nat \<Rightarrow> Topology" where
  "Convert_simplex 0 = Point"
| "Convert_simplex (Suc n) = Pyramid (Convert_simplex n)"

fun Convert_cube :: "nat \<Rightarrow> Topology" where
  "Convert_cube 0 = Point"
| "Convert_cube (Suc n) = Prism (Convert_cube n)"

section \<open>Shape descriptor and \<open>DuneGeometryTypeProvider\<close>\<close>

datatype BasicType = simplex | cube | pyramid | prism | none

text \<open>
  Modelled from the spec: \<open>GeometryType\<close> of \<open>type.hh\<close>, the runtime tuple of a basic
  kind and a dimension. \<open>GeometryType bt d\<close> is the value made by the C++ expression
  \<open>GeometryType( bt, d )\<close>, \<open>GeometryType_id t d\<close> the value made from a topology id by
  \<open>GeometryType( t, d )\<close>, and \<open>GeometryType_default\<close> a default-constructed object. The sources
  construct \<open>GeometryType( prism, d )\<close> and \<open>GeometryType( pyramid, d )\<close> for \<open>d >= 3\<close> only.
\<close>

datatype GeometryType =
    GeometryType BasicType nat
  | GeometryType_id nat nat
  | GeometryType_default

definition makeNone :: "nat \<Rightarrow> GeometryType" where
  "makeNone d = GeometryType none d"

definition makeSimplex :: "nat \<Rightarrow> GeometryType" where
  "makeSimplex d = GeometryType simplex d"

definition makeCube :: "nat \<Rightarrow> GeometryType" where
  "makeCube d = GeometryType cube d"

text \<open>
  \<open>numTopologies = (1 << dimension)\<close>. The constant is an \<open>unsigned int\<close>; the class
  template can only be instantiated for a dimension below the width of \<open>int\<close>, where the
  shift does not wrap, so the power is taken over the naturals.
\<close>

definition numTopologies :: "nat \<Rightarrow> nat" where
  "numTopologies dimension = 2 ^ dimension"

text \<open>
  The constructor of \<open>DuneGeometryTypeProvider< dim, linetype >\<close>: the member array
  \<open>types_\<close> after the constructor has run. The array has \<open>numTopologies / 2\<close> entries for
  \<open>dim >= 1\<close> and \<open>numTopologies\<close> entries otherwise.
\<close>

definition DuneGeometryTypeProvider :: "nat \<Rightarrow> BasicType \<Rightarrow> GeometryType list" where
  "DuneGeometryTypeProvider dimension linetype =
     (let types0 = replicate (if dimension \<ge> 1 then numTopologies dimension div 2 else numTopologies dimension)
                     GeometryType_default;
          types1 = (if dimension > 3
                    then fold (\<lambda>i ts. ts[i := makeNone dimension]) [0 ..< numTopologies dimension div 2] types0
                    else types0)
      in if dimension \<ge> 3 then
           (let d = (if dimension \<ge> 2 then dimension - 2 else 0);
                t0 = types1[0 := makeSimplex dimension];
                t1 = t0[2 ^ d := GeometryType prism dimension];
                t2 = t1[2 ^ d - 1 := GeometryType pyramid dimension]
            in t2[2 ^ (d + 1) - 1 := makeCube dimension])
         else if dimension = 2 then
           (let t0 = types1[0 := makeSimplex dimension] in t0[1 := makeCube dimension])
         else types1[0 := GeometryType linetype dimension])"

text \<open>
  \<open>DuneGeometryTypeProvider::type( topologyId )\<close>: the \<open>assert\<close>, then
  \<open>instance().types_[ topologyId / 2 ]\<close>.
\<close>

definition DuneGeometryTypeProvider_type :: "nat \<Rightarrow> BasicType \<Rightarrow> nat \<Rightarrow> error + GeometryType" where
  "DuneGeometryTypeProvider_type dimension linetype topologyId =
     (if \<not> topologyId < numTopologies dimension then Inl AssertionFailed
      else get_at (DuneGeometryTypeProvider dimension linetype) (topologyId div 2))"

section \<open>Subentity counts\<close>

text \<open>
  Modelled from the spec: \<open>Size< Topology, codim >::value\<close> of \<open>subtopologies.hh\<close>, the
  number of subentities of a codimension. The count at codimension 0 is 1. Over a base
  shape \<open>B\<close>, the prism has \<open>size_B(c) + 2 * size_B(c-1)\<close> and the pyramid
  \<open>size_B(c) + size_B(c-1)\<close> subentities of codimension \<open>c >= 1\<close>, where the count of the
  base below its vertices is taken as 0 for the prism and as 1, the apex, for the pyramid.
  No count is defined above the dimension; the function is 0 there.
\<close>

fun Size :: "Topology \<Rightarrow> nat \<Rightarrow> nat" where
  "Size Point c = (if c = 0 then 1 else 0)"
| "Size (Prism B) 0 = 1"
| "Size (Prism B) (Suc c) = (if c = Topology_dimension B then 0 else Size B (Suc c)) + 2 * Size B c"
| "Size (Pyramid B) 0 = 1"
| "Size (Pyramid B) (Suc c) = (if c = Topology_dimension B then 1 else Size B (Suc c)) + Size B c"

section \<open>Numbering converter\<close>

text \<open>
  \<open>ForLoop< Operation, first, last >\<close> of dune-common applies \<open>Operation< first >\<close> up to
  \<open>Operation< last >\<close> in increasing order; it is a run over the list \<open>[first ..< last + 1]\<close>.
  A loop that fills a vector entry by entry stops at the first failing entry.
\<close>

fun mapE :: "('a \<Rightarrow> error + 'b) \<Rightarrow> 'a list \<Rightarrow> error + 'b list" where
  "mapE f [] = Inr []"
| "mapE f (x # xs) =
     (case f x of Inl e \<Rightarrow> Inl e
      | Inr y \<Rightarrow> (case mapE f xs of Inl e \<Rightarrow> Inl e | Inr ys \<Rightarrow> Inr (y # ys)))"

text \<open>
  Subtraction of two \<open>unsigned int\<close> values (both below \<open>2^32 = 4294967296\<close>): it wraps
  around when the second is the larger.
\<close>

definition uint_sub :: "nat \<Rightarrow> nat \<Rightarrow> nat" where
  "uint_sub a b = (if b \<le> a then a - b else 4294967296 - (b - a))"

text \<open>
  The structs the specialisations of \<open>MapNumbering< Topology >\<close> derive from. The primary
  template is only declared, so a topology without a specialisation has no numbering.
\<close>

datatype MapNumberingImpl =
    MapNumberingIdentical
  | MapNumberingTriangle
  | MapNumberingTetrahedron
  | MapNumberingCube
  | MapNumbering4DCube
  | MapNumberingPyramid
  | MapNumberingPrism

fun MapNumbering :: "Topology \<Rightarrow> MapNumberingImpl option" where
  "MapNumbering Point = Some MapNumberingIdentical"
| "MapNumbering (Prism Point) = Some MapNumberingIdentical"
| "MapNumbering (Pyramid Point) = Some MapNumberingIdentical"
| "MapNumbering (Pyramid (Pyramid Point)) = Some MapNumberingTriangle"
| "MapNumbering (Pyramid (Prism Point)) = Some MapNumberingTriangle"
| "MapNumbering (Prism (Pyramid Point)) = Some MapNumberingIdentical"
| "MapNumbering (Prism (Prism Point)) = Some MapNumberingIdentical"
| "MapNumbering (Pyramid (Pyramid (Pyramid Point))) = Some MapNumberingTetrahedron"
| "MapNumbering (Pyramid (Pyramid (Prism Point))) = Some MapNumberingTetrahedron"
| "MapNumbering (Prism (Prism (Pyramid Point))) = Some MapNumberingCube"
| "MapNumbering (Prism (Prism (Prism Point))) = Some MapNumberingCube"
| "MapNumbering (Prism (Prism (Prism (Pyramid Point)))) = Some MapNumbering4DCube"
| "MapNumbering (Prism (Prism (Prism (Prism Point)))) = Some MapNumbering4DCube"
| "MapNumbering (Pyramid (Prism (Pyramid Point))) = Some MapNumberingPyramid"
| "MapNumbering (Pyramid (Prism (Prism Point))) = Some MapNumberingPyramid"
| "MapNumbering (Prism (Pyramid (Pyramid Point))) = Some MapNumberingPrism"
| "MapNumbering (Prism (Pyramid (Prism Point))) = Some MapNumberingPrism"
| "MapNumbering _ = None"

text \<open>\<open>MapNumbering::dune2generic< codim >( i )\<close>, with the static tables of each struct.\<close>

fun dune2generic_impl :: "MapNumberingImpl \<Rightarrow> nat \<Rightarrow> nat \<Rightarrow> error + nat" where
  "dune2generic_impl MapNumberingIdentical codim i = Inr i"
| "dune2generic_impl MapNumberingTriangle codim i =
     (if codim = 1 then Inr (uint_sub 2 i) else Inr i)"
| "dune2generic_impl MapNumberingTetrahedron codim i =
     (let edge = [0, 2, 1, 3, 4, 5]
      in if codim = 1 then Inr (uint_sub 3 i) else if codim = 2 then get_at edge i else Inr i)"
| "dune2generic_impl MapNumberingCube codim i =
     (let edge = [0, 1, 2, 3, 4, 5, 8, 9, 6, 7, 10, 11]
      in if codim = 2 then get_at edge i else Inr i)"
| "dune2generic_impl MapNumbering4DCube codim i =
     (let codim2 = [0, 1, 2, 3, 4, 5, 8, 9, 12, 13, 18, 19,
                    6, 7, 10, 11, 14, 15, 20, 21, 16, 17, 22, 23];
          codim3 = [0, 1, 2, 3, 4, 5, 6, 7, 8, 9, 10, 11, 20, 21, 22, 23,
                    12, 13, 16, 17, 24, 25, 28, 29, 14, 15, 18, 19, 26, 27, 30, 31]
      in if codim = 2 then get_at codim2 i else if codim = 3 then get_at codim3 i else Inr i)"
| "dune2generic_impl MapNumberingPyramid codim i =
     (let vertex = [0, 1, 3, 2, 4];
          edge = [2, 1, 3, 0, 4, 5, 7, 6];
          face = [0, 3, 2, 4, 1]
      in if codim = 3 then get_at vertex i else if codim = 2 then get_at edge i
         else if codim = 1 then get_at face i else Inr i)"
| "dune2generic_impl MapNumberingPrism codim i =
     (let edge = [3, 5, 4, 0, 1, 2, 6, 8, 7];
          face = [3, 0, 2, 1, 4]
      in if codim = 2 then get_at edge i else if codim = 1 then get_at face i else Inr i)"

text \<open>\<open>MapNumbering::generic2dune< codim >( i )\<close>.\<close>

fun generic2dune_impl :: "MapNumberingImpl \<Rightarrow> nat \<Rightarrow> nat \<Rightarrow> error + nat" where
  "generic2dune_impl MapNumberingIdentical codim i = Inr i"
| "generic2dune_impl MapNumberingTriangle codim i = dune2generic_impl MapNumberingTriangle codim i"
| "generic2dune_impl MapNumberingTetrahedron codim i =
     dune2generic_impl MapNumberingTetrahedron codim i"
| "generic2dune_impl MapNumberingCube codim i = dune2generic_impl MapNumberingCube codim i"
| "generic2dune_impl MapNumbering4DCube codim i =
     (let codim2 = [0, 1, 2, 3, 4, 5, 12, 13, 6, 7, 14, 15,
                    8, 9, 16, 17, 20, 21, 10, 11, 18, 19, 22, 23];
          codim3 = [0, 1, 2, 3, 4, 5, 6, 7, 8, 9, 10, 11, 16, 17, 24, 25,
                    18, 19, 26, 27, 12, 13, 14, 15, 20, 21, 28, 29, 22, 23, 30, 31]
      in if codim = 2 then get_at codim2 i else if codim = 3 then get_at codim3 i else Inr i)"
| "generic2dune_impl MapNumberingPyramid codim i =
     (let vertex = [0, 1, 3, 2, 4];
          edge = [3, 1, 0, 2, 4, 5, 7, 6];
          face = [0, 4, 2, 1, 3]
      in if codim = 3 then get_at vertex i else if codim = 2 then get_at edge i
         else if codim = 1 then get_at face i else Inr i)"
| "generic2dune_impl MapNumberingPrism codim i =
     (let edge = [3, 4, 5, 0, 2, 1, 6, 8, 7];
          face = [1, 3, 2, 0, 4]
      in if codim = 2 then get_at edge i else if codim = 1 then get_at face i else Inr i)"

text \<open>
  \<open>MapNumberingProvider< dim >::Builder< i >::Codim< codim >::apply\<close>: both vectors are
  resized to \<open>Size< Topology, codim >::value\<close> and filled entry by entry.
\<close>

definition Builder_Codim :: "Topology \<Rightarrow> nat \<Rightarrow> error + (nat list \<times> nat list)" where
  "Builder_Codim T codim =
     (case MapNumbering T of
        None \<Rightarrow> Inl NotInstantiable
      | Some M \<Rightarrow>
          (let size = Size T codim
           in case mapE (dune2generic_impl M codim) [0 ..< size] of
                Inl e \<Rightarrow> Inl e
              | Inr d2g \<Rightarrow>
                  (case mapE (generic2dune_impl M codim) [0 ..< size] of
                     Inl e \<Rightarrow> Inl e
                   | Inr g2d \<Rightarrow> Inr (d2g, g2d))))"

text \<open>
  \<open>Builder< topologyId >::apply\<close>: \<open>ForLoop< Codim, 0, dimension >\<close> over the row of the
  topology.
\<close>

definition Builder :: "nat \<Rightarrow> nat \<Rightarrow> error + (nat list \<times> nat list) list" where
  "Builder dimension topologyId = mapE (Builder_Codim (Topology_type topologyId dimension)) [0 ..< dimension + 1]"

text \<open>
  The two member arrays of \<open>MapNumberingProvider< dim >\<close>, indexed by topology id and by
  codimension. A member \<open>name_\<close> of a C++ class is the field \<open>name_m\<close> of its record.
\<close>

record MapNumberingProvider =
  dune2generic_m :: "nat list list list"
  generic2dune_m :: "nat list list list"

text \<open>
  The constructor, \<open>ForLoop< Builder, 0, (1 << dim)-1 >\<close>; \<open>instance()\<close> returns the object
  it built.
\<close>

definition MapNumberingProvider_instance :: "nat \<Rightarrow> error + MapNumberingProvider" where
  "MapNumberingProvider_instance dimension =
     (case mapE (Builder dimension) [0 ..< (2 ^ dimension - 1) + 1] of
        Inl e \<Rightarrow> Inl e
      | Inr rows \<Rightarrow>
          Inr \<lparr> dune2generic_m = map (map fst) rows, generic2dune_m = map (map snd) rows \<rparr>)"

text \<open>
  The public \<open>dune2generic( topologyId, i, codim )\<close> and \<open>generic2dune( topologyId, i, codim )\<close>.
  Both check \<open>i\<close> against the size of the \<open>dune2generic_\<close> vector.
\<close>

definition dune2generic :: "nat \<Rightarrow> nat \<Rightarrow> nat \<Rightarrow> nat \<Rightarrow> error + nat" where
  "dune2generic dimension topologyId i codim =
     (case MapNumberingProvider_instance dimension of
        Inl e \<Rightarrow> Inl e
      | Inr inst \<Rightarrow>
          if \<not> (topologyId < numTopologies dimension \<and> codim \<le> dimension) then Inl AssertionFailed
          else if \<not> i < length (dune2generic_m inst ! topologyId ! codim) then Inl AssertionFailed
          else Inr (dune2generic_m inst ! topologyId ! codim ! i))"

definition generic2dune :: "nat \<Rightarrow> nat \<Rightarrow> nat \<Rightarrow> nat \<Rightarrow> error + nat" where
  "generic2dune dimension topologyId i codim =
     (case MapNumberingProvider_instance dimension of
        Inl e \<Rightarrow> Inl e
      | Inr inst \<Rightarrow>
          if \<not> (topologyId < numTopologies dimension \<and> codim \<le> dimension) then Inl AssertionFailed
          else if \<not> i < length (dune2generic_m inst ! topologyId ! codim) then Inl AssertionFailed
          else Inr (generic2dune_m inst ! topologyId ! codim ! i))"

text \<open>
  Two tables of length \<open>n\<close> that are permutations of \<open>[0, n)\<close> and inverse to each other, and
  the check of every table of a provider (or of one row a \<open>Builder\<close> fills) against the
  subentity counts.
\<close>

definition inverse_tables :: "nat list \<Rightarrow> nat list \<Rightarrow> nat \<Rightarrow> bool" where
  "inverse_tables d2g g2d n =
     (length d2g = n \<and> length g2d = n \<and>
      list_all (\<lambda>i. d2g ! i < n \<and> g2d ! (d2g ! i) = i \<and> g2d ! i < n \<and> d2g ! (g2d ! i) = i)
        [0 ..< n])"

definition provider_inverse :: "nat \<Rightarrow> bool" where
  "provider_inverse dimension =
     (case MapNumberingProvider_instance dimension of
        Inl e \<Rightarrow> False
      | Inr inst \<Rightarrow>
          length (dune2generic_m inst) = 2 ^ dimension \<and> length (generic2dune_m inst) = 2 ^ dimension \<and>
          list_all (\<lambda>t.
            length (dune2generic_m inst ! t) = dimension + 1 \<and>
            length (generic2dune_m inst ! t) = dimension + 1 \<and>
            list_all (\<lambda>c.
              inverse_tables (dune2generic_m inst ! t ! c) (generic2dune_m inst ! t ! c)
                (Size (Topology_type t dimension) c)) [0 ..< dimension + 1]) [0 ..< 2 ^ dimension])"

definition builder_inverse :: "nat \<Rightarrow> nat \<Rightarrow> bool" where
  "builder_inverse dimension topologyId =
     list_all (\<lambda>c.
       (case Builder_Codim (Topology_type topologyId dimension) c of
          Inl e \<Rightarrow> False
        | Inr (d2g, g2d) \<Rightarrow> inverse_tables d2g g2d (Size (Topology_type topologyId dimension) c)))
       [0 ..< dimension + 1]"

section \<open>Reference element: topological part\<close>

text \<open>
  Modelled from the spec: \<open>Topology::id\<close> and \<open>Topology::numCorners\<close> of \<open>topologytypes.hh\<close>.
  The id has bit \<open>k\<close> set where level \<open>k\<close> of the composition is a prism; a prism has the
  corners of its base twice, a pyramid the corners of its base and the apex.
\<close>

fun Topology_id :: "Topology \<Rightarrow> nat" where
  "Topology_id Point = 0"
| "Topology_id (Prism B) = Topology_id B + 2 ^ Topology_dimension B"
| "Topology_id (Pyramid B) = Topology_id B"

fun Topology_numCorners :: "Topology \<Rightarrow> nat" where
  "Topology_numCorners Point = 1"
| "Topology_numCorners (Prism B) = 2 * Topology_numCorners B"
| "Topology_numCorners (Pyramid B) = Topology_numCorners B + 1"

text \<open>
  The remaining templates of \<open>subtopologies.hh\<close> the reference element reads are not among
  the sources and the spec gives no rule for them, so they are parameters of the model:
  \<open>SubTopology< Topology, codim, i >::type\<close>, \<open>SubTopologySize< Topology, codim, subcodim >::size( i )\<close>
  and \<open>GenericSubTopologyNumbering< Topology, codim, subcodim >::number( i, j )\<close>.
\<close>

record SubTopologies =
  SubTopology :: "Topology \<Rightarrow> nat \<Rightarrow> nat \<Rightarrow> Topology"
  SubTopologySize :: "Topology \<Rightarrow> nat \<Rightarrow> nat \<Rightarrow> nat \<Rightarrow> nat"
  GenericSubTopologyNumbering :: "Topology \<Rightarrow> nat \<Rightarrow> nat \<Rightarrow> nat \<Rightarrow> nat \<Rightarrow> nat"

text \<open>
  \<open>GenericReferenceElement< void, dim >::SubEntityInfo\<close>. The indices it stores come from
  unsigned values, so they are naturals here.
\<close>

record SubEntityInfo =
  codim_m :: nat
  numbering_m :: "nat list list"
  type_m :: GeometryType

text \<open>
  \<open>SubEntityInfo::initialize< Topology, codim, i >\<close>: \<open>ForLoop< SubCodim, 0, dim-codim >\<close> resizes
  and fills \<open>numbering_[ codim+subcodim ]\<close>; the other vectors of the array stay empty.
\<close>

definition SubCodim_apply ::
  "SubTopologies \<Rightarrow> Topology \<Rightarrow> nat \<Rightarrow> nat \<Rightarrow> nat \<Rightarrow> nat list list \<Rightarrow> nat list list" where
  "SubCodim_apply tb T codim i subcodim numbering =
     (let size = SubTopologySize tb T codim subcodim i
      in numbering[codim + subcodim :=
           map (\<lambda>j. GenericSubTopologyNumbering tb T codim subcodim i j) [0 ..< size]])"

definition SubEntityInfo_initialize ::
  "SubTopologies \<Rightarrow> nat \<Rightarrow> Topology \<Rightarrow> nat \<Rightarrow> nat \<Rightarrow> SubEntityInfo" where
  "SubEntityInfo_initialize tb dimension T codim i =
     \<lparr> codim_m = codim,
       numbering_m = fold (SubCodim_apply tb T codim i) [0 ..< (dimension - codim) + 1]
                       (replicate (dimension + 1) []),
       type_m = GeometryType_id (Topology_id (SubTopology tb T codim i))
                  (Topology_dimension (SubTopology tb T codim i)) \<rparr>"

text \<open>\<open>SubEntityInfo::size( cc )\<close> and \<open>SubEntityInfo::number( ii, cc )\<close>.\<close>

definition SubEntityInfo_size :: "nat \<Rightarrow> SubEntityInfo \<Rightarrow> nat \<Rightarrow> error + nat" where
  "SubEntityInfo_size dimension info cc =
     (if \<not> (codim_m info \<le> cc \<and> cc \<le> dimension) then Inl AssertionFailed
      else Inr (length (numbering_m info ! cc)))"

definition SubEntityInfo_number :: "nat \<Rightarrow> SubEntityInfo \<Rightarrow> nat \<Rightarrow> nat \<Rightarrow> error + nat" where
  "SubEntityInfo_number dimension info ii cc =
     (if \<not> (codim_m info \<le> cc \<and> cc \<le> dimension) then Inl AssertionFailed
      else get_at (numbering_m info ! cc) ii)"

text \<open>
  \<open>GenericReferenceElement< void, dim >::initializeTopology< Topology >\<close>: the static assertion
  on the dimension, then \<open>ForLoop< Init::Codim, 0, dim >\<close>, where \<open>Codim< codim >::apply\<close> resizes
  \<open>info_[ codim ]\<close> to \<open>Size< Topology, codim >::value\<close> and initialises every entry.
\<close>

definition Initialize_Codim :: "SubTopologies \<Rightarrow> nat \<Rightarrow> Topology \<Rightarrow> nat \<Rightarrow> SubEntityInfo list" where
  "Initialize_Codim tb dimension T codim =
     map (SubEntityInfo_initialize tb dimension T codim) [0 ..< Size T codim]"

definition initializeTopology_base ::
  "SubTopologies \<Rightarrow> nat \<Rightarrow> Topology \<Rightarrow> error + SubEntityInfo list list" where
  "initializeTopology_base tb dimension T =
     (if Topology_dimension T \<noteq> dimension then Inl NotInstantiable
      else Inr (map (Initialize_Codim tb dimension T) [0 ..< dimension + 1]))"

text \<open>
  The accessors \<open>size( c )\<close>, \<open>size( i, c, cc )\<close> and \<open>subEntity( i, c, ii, cc )\<close> of
  \<open>GenericReferenceElement< void, dim >\<close> on the array \<open>info_\<close>.
\<close>

definition size1 :: "nat \<Rightarrow> SubEntityInfo list list \<Rightarrow> nat \<Rightarrow> error + nat" where
  "size1 dimension info c = (if \<not> c \<le> dimension then Inl AssertionFailed else Inr (length (info ! c)))"

definition size3 :: "nat \<Rightarrow> SubEntityInfo list list \<Rightarrow> nat \<Rightarrow> nat \<Rightarrow> nat \<Rightarrow> error + nat" where
  "size3 dimension info i c cc =
     (if \<not> c \<le> dimension then Inl AssertionFailed
      else case get_at (info ! c) i of
             Inl e \<Rightarrow> Inl e
           | Inr sub \<Rightarrow> SubEntityInfo_size dimension sub cc)"

definition subEntity ::
  "nat \<Rightarrow> SubEntityInfo list list \<Rightarrow> nat \<Rightarrow> nat \<Rightarrow> nat \<Rightarrow> nat \<Rightarrow> error + nat" where
  "subEntity dimension info i c ii cc =
     (if \<not> c \<le> dimension then Inl AssertionFailed
      else case get_at (info ! c) i of
             Inl e \<Rightarrow> Inl e
           | Inr sub \<Rightarrow> SubEntityInfo_number dimension sub ii cc)"

section \<open>Reference element: geometric part\<close>

text \<open>
  \<open>FieldVector< ctype, dim >\<close> with its operators \<open>+=\<close> and \<open>*=\<close>. The coordinate type is a
  template parameter; the model computes in the rationals, without rounding.
\<close>

type_synonym FieldVector = "rat list"

definition fv_add :: "FieldVector \<Rightarrow> FieldVector \<Rightarrow> FieldVector" where
  "fv_add x y = map2 (+) x y"

definition fv_scale :: "FieldVector \<Rightarrow> rat \<Rightarrow> FieldVector" where
  "fv_scale x a = map (\<lambda>c. c * a) x"

text \<open>
  \<open>ReferenceDomain< Topology >\<close> of \<open>referencedomain.hh\<close> and the mapping classes of
  \<open>hybridmapping.hh\<close> are not among the sources; what \<open>GenericReferenceElement\<close> calls of them
  is a parameter: the corners, the volume and the normals of the domain, the pointer
  \<open>new VirtualMapping( codim0Variable )\<close> returns, the pointer \<open>refMapping.trace< codim >( i, storage )\<close>
  returns for a fresh buffer, and \<open>Mapping::global( local )\<close> of the object behind a pointer.
\<close>

record ReferenceDomain =
  corner :: "nat \<Rightarrow> FieldVector"
  volume :: rat
  numNormals :: nat
  integrationOuterNormal :: "nat \<Rightarrow> FieldVector"

record 'm Mappings =
  new_VirtualMapping :: 'm
  trace :: "'m \<Rightarrow> nat \<Rightarrow> nat \<Rightarrow> 'm"
  mapping_global :: "'m \<Rightarrow> FieldVector \<Rightarrow> FieldVector"

text \<open>The data members of \<open>GenericReferenceElement< ctype, dim >\<close>, \<open>info_\<close> of its base included.\<close>

record 'm GenericReferenceElement =
  info_m :: "SubEntityInfo list list"
  volume_m :: rat
  baryCenters_m :: "FieldVector list list"
  volumeNormals_m :: "FieldVector list"
  mappings_m :: "'m list list"

text \<open>
  The innermost loop of \<open>initializeTopology\<close>:
  \<open>baryCenters_[ codim ][ i ] += baryCenters_[ dim ][ Base::subEntity( i, codim, j, dim ) ]\<close>
  for the given values of \<open>j\<close>.
\<close>

fun add_corners ::
  "nat \<Rightarrow> SubEntityInfo list list \<Rightarrow> FieldVector list \<Rightarrow> nat \<Rightarrow> nat \<Rightarrow> nat list
     \<Rightarrow> FieldVector \<Rightarrow> error + FieldVector" where
  "add_corners dimension info corners codim i [] acc = Inr acc"
| "add_corners dimension info corners codim i (j # js) acc =
     (case subEntity dimension info i codim j dimension of
        Inl e \<Rightarrow> Inl e
      | Inr v \<Rightarrow>
          (case get_at corners v of
             Inl e \<Rightarrow> Inl e
           | Inr x \<Rightarrow> add_corners dimension info corners codim i js (fv_add acc x)))"

text \<open>
  The body of the loop over \<open>i\<close>. \<open>numCorners\<close> is declared \<open>static const\<close> inside the loop: it
  is initialised from \<open>Base::size( i, codim, dim )\<close> the first time control reaches the
  declaration and keeps that value afterwards. The state of the static is the \<open>nat option\<close>
  passed through; \<open>None\<close> is not yet initialised. The scaling fails for a zero count, since
  the rationals have no \<open>1 / 0\<close>.
\<close>

definition barycenter ::
  "nat \<Rightarrow> SubEntityInfo list list \<Rightarrow> FieldVector list \<Rightarrow> nat \<Rightarrow> nat \<Rightarrow> nat option
     \<Rightarrow> error + (FieldVector \<times> nat option)" where
  "barycenter dimension info corners codim i static =
     (case (case static of Some n \<Rightarrow> Inr n | None \<Rightarrow> size3 dimension info i codim dimension) of
        Inl e \<Rightarrow> Inl e
      | Inr numCorners \<Rightarrow>
          (case add_corners dimension info corners codim i [0 ..< numCorners] (replicate dimension 0) of
             Inl e \<Rightarrow> Inl e
           | Inr s \<Rightarrow>
               if numCorners = 0 then Inl DivisionByZero
               else Inr (fv_scale s (1 / of_nat numCorners), Some numCorners)))"

text \<open>The loop over \<open>i\<close> and the loop over \<open>codim\<close>, both passing the static on.\<close>

fun baryCenters_i ::
  "nat \<Rightarrow> SubEntityInfo list list \<Rightarrow> FieldVector list \<Rightarrow> nat \<Rightarrow> nat list \<Rightarrow> nat option
     \<Rightarrow> error + (FieldVector list \<times> nat option)" where
  "baryCenters_i dimension info corners codim [] static = Inr ([], static)"
| "baryCenters_i dimension info corners codim (i # is) static =
     (case barycenter dimension info corners codim i static of
        Inl e \<Rightarrow> Inl e
      | Inr (b, static') \<Rightarrow>
          (case baryCenters_i dimension info corners codim is static' of
             Inl e \<Rightarrow> Inl e
           | Inr (bs, static'') \<Rightarrow> Inr (b # bs, static'')))"

fun baryCenters_codim ::
  "nat \<Rightarrow> SubEntityInfo list list \<Rightarrow> FieldVector list \<Rightarrow> nat list \<Rightarrow> nat option
     \<Rightarrow> error + (FieldVector list list \<times> nat option)" where
  "baryCenters_codim dimension info corners [] static = Inr ([], static)"
| "baryCenters_codim dimension info corners (codim # codims) static =
     (case size1 dimension info codim of
        Inl e \<Rightarrow> Inl e
      | Inr sz \<Rightarrow>
          (case baryCenters_i dimension info corners codim [0 ..< sz] static of
             Inl e \<Rightarrow> Inl e
           | Inr (row, static') \<Rightarrow>
               (case baryCenters_codim dimension info corners codims static' of
                  Inl e \<Rightarrow> Inl e
                | Inr (rows, static'') \<Rightarrow> Inr (row # rows, static''))))"

text \<open>
  \<open>Create< codim >::apply\<close>: one buffer and one trace of the codimension-0 mapping for every
  subentity of the codimension.
\<close>

definition Create ::
  "'m Mappings \<Rightarrow> nat \<Rightarrow> SubEntityInfo list list \<Rightarrow> 'm \<Rightarrow> nat \<Rightarrow> error + 'm list" where
  "Create mp dimension info refMapping codim =
     (case size1 dimension info codim of
        Inl e \<Rightarrow> Inl e
      | Inr sz \<Rightarrow> Inr (map (\<lambda>i. trace mp refMapping codim i) [0 ..< sz]))"

text \<open>
  \<open>GenericReferenceElement< ctype, dim >::initializeTopology< Topology >\<close>: the base class
  first, then the corners into \<open>baryCenters_[ dim ]\<close>, the barycenters for the codimensions
  below \<open>dim\<close>, volume and normals, the codimension-0 mapping and
  \<open>ForLoop< Create, 1, dim >\<close>. The static of the instantiation goes in and comes out.
\<close>

definition initializeTopology ::
  "SubTopologies \<Rightarrow> ReferenceDomain \<Rightarrow> 'm Mappings \<Rightarrow> nat \<Rightarrow> Topology \<Rightarrow> nat option
     \<Rightarrow> error + ('m GenericReferenceElement \<times> nat option)" where
  "initializeTopology tb rd mp dimension T static =
     (case initializeTopology_base tb dimension T of
        Inl e \<Rightarrow> Inl e
      | Inr info \<Rightarrow>
    (case size1 dimension info dimension of
        Inl e \<Rightarrow> Inl e
      | Inr numVertices \<Rightarrow>
    (let corners = map (corner rd) [0 ..< numVertices] in
     case baryCenters_codim dimension info corners [0 ..< dimension] static of
        Inl e \<Rightarrow> Inl e
      | Inr (rows, static') \<Rightarrow>
    (let refMapping = new_VirtualMapping mp in
     case mapE (Create mp dimension info refMapping) [1 ..< dimension + 1] of
        Inl e \<Rightarrow> Inl e
      | Inr traces \<Rightarrow>
          Inr (\<lparr> info_m = info,
                 volume_m = volume rd,
                 baryCenters_m = rows @ [corners],
                 volumeNormals_m = map (integrationOuterNormal rd) [0 ..< numNormals rd],
                 mappings_m = [refMapping] # traces \<rparr>, static')))))"

text \<open>\<open>position( i, c )\<close>.\<close>

definition position :: "nat \<Rightarrow> 'm GenericReferenceElement \<Rightarrow> nat \<Rightarrow> nat \<Rightarrow> error + FieldVector" where
  "position dimension E i c =
     (if \<not> c \<le> dimension then Inl AssertionFailed else get_at (baryCenters_m E ! c) i)"

text \<open>
  The reference triangle as an input: its three edges join the vertices \<open>{0,1}\<close>, \<open>{0,2}\<close> and
  \<open>{1,2}\<close>, its corners are \<open>(0,0)\<close>, \<open>(1,0)\<close> and \<open>(0,1)\<close>.
\<close>

definition triangle_tables :: SubTopologies where
  "triangle_tables =
     \<lparr> SubTopology = (\<lambda>T codim i. if codim = 0 then T else if codim = 1 then Pyramid Point else Point),
       SubTopologySize = (\<lambda>T codim subcodim i.
          if codim = 0 then [1, 3, 3] ! subcodim else if codim = 1 then [1, 2] ! subcodim else 1),
       GenericSubTopologyNumbering = (\<lambda>T codim subcodim i j.
          if codim = 0 then j
          else if codim = 1 then (if subcodim = 0 then i else [[0, 1], [0, 2], [1, 2]] ! i ! j)
          else i) \<rparr>"

definition triangle_domain :: ReferenceDomain where
  "triangle_domain =
     \<lparr> corner = (\<lambda>i. [[0, 0], [1, 0], [0, 1]] ! i),
       volume = 1 / 2,
       numNormals = 3,
       integrationOuterNormal = (\<lambda>i. [[0, -1], [-1, 0], [1, 1]] ! i) \<rparr>"

definition unit_mappings :: "unit Mappings" where
  "unit_mappings = \<lparr> new_VirtualMapping = (), trace = (\<lambda>m codim i. ()),
       mapping_global = (\<lambda>m x. x) \<rparr>"

section \<open>Reference element: embeddings and destruction\<close>

text \<open>
  \<open>mapping< codim >( i )\<close> dereferences \<open>mappings_[ codimVariable ][ i ]\<close>. The table has one
  vector per codimension from 0 to \<open>dim\<close>; a template argument outside cannot be instantiated.
\<close>

definition mapping :: "'m GenericReferenceElement \<Rightarrow> nat \<Rightarrow> int \<Rightarrow> error + 'm" where
  "mapping E codim i =
     (if \<not> codim < length (mappings_m E) then Inl NotInstantiable
      else if i < 0 then Inl OutOfRange
      else get_at (mappings_m E ! codim) (nat i))"

text \<open>
  \<open>global< codim >( local, i, c )\<close>: the comparison of the runtime \<open>c\<close> with the template
  argument, the throw, the assertion, and the call of the mapping.
\<close>

definition global ::
  "'m Mappings \<Rightarrow> 'm GenericReferenceElement \<Rightarrow> nat \<Rightarrow> FieldVector \<Rightarrow> int \<Rightarrow> int
     \<Rightarrow> error + FieldVector" where
  "global mp E codim local i c =
     (if c \<noteq> int codim
      then Inl (Exception ''Local Coordinate Type does not correspond to codimension c.'')
      else if \<not> c = int codim then Inl AssertionFailed
      else case mapping E codim i of
             Inl e \<Rightarrow> Inl e
           | Inr m \<Rightarrow> Inr (mapping_global mp m local))"

text \<open>
  What the destructor does to the objects behind the pointers of the mapping table, in
  the order it does it: an explicit destructor call on the object of subentity \<open>(i, codim)\<close>,
  \<open>delete[]\<close> of the buffer that held it, and \<open>delete\<close> of the codimension-0 mapping.
\<close>

datatype 'm event =
    DestructorCall nat nat 'm
  | DeleteArray nat nat 'm
  | Delete 'm

fun event_codim :: "'m event \<Rightarrow> nat" where
  "event_codim (DestructorCall codim i p) = codim"
| "event_codim (DeleteArray codim i p) = codim"
| "event_codim (Delete p) = 0"

text \<open>
  \<open>Destroy< codim >::apply\<close>: for every \<open>i\<close> below the size of \<open>mappings[ codimVariable ]\<close>, the
  destructor call, then the release of the storage.
\<close>

fun Destroy_loop :: "nat \<Rightarrow> 'm list \<Rightarrow> nat list \<Rightarrow> 'm event list \<Rightarrow> 'm event list" where
  "Destroy_loop codim row [] events = events"
| "Destroy_loop codim row (i # is) events =
     Destroy_loop codim row is
       (events @ [DestructorCall codim i (row ! i), DeleteArray codim i (row ! i)])"

definition Destroy :: "'m list list \<Rightarrow> nat \<Rightarrow> 'm event list \<Rightarrow> 'm event list" where
  "Destroy mappings codim events =
     Destroy_loop codim (mappings ! codim) [0 ..< length (mappings ! codim)] events"

text \<open>
  \<open>~GenericReferenceElement\<close>: \<open>ForLoop< Destroy, 1, dim >\<close>, which applies \<open>Destroy< 1 >\<close> up to
  \<open>Destroy< dim >\<close> in increasing order, then the \<open>delete\<close> of \<open>mappings_[ 0 ][ 0 ]\<close> if that
  vector is not empty.
\<close>

definition destructor :: "nat \<Rightarrow> 'm GenericReferenceElement \<Rightarrow> 'm event list" where
  "destructor dimension E =
     (let events = fold (Destroy (mappings_m E)) [1 ..< dimension + 1] []
      in if length (mappings_m E ! 0) \<noteq> 0 then events @ [Delete (mappings_m E ! 0 ! 0)]
         else events)"

text \<open>An element with one codimension-0 mapping and three mappings in codimensions 1 and 2.\<close>

definition example_element :: "nat GenericReferenceElement" where
  "example_element =
     \<lparr> info_m = [], volume_m = 1 / 2, baryCenters_m = [], volumeNormals_m = [],
       mappings_m = [[10], [20, 21, 22], [30, 31, 32]] \<rparr>"

definition example_mappings :: "nat Mappings" where
  "example_mappings =
     \<lparr> new_VirtualMapping = 10, trace = (\<lambda>m codim i. 10 * (codim + 2) + i),
       mapping_global = (\<lambda>m x. map (\<lambda>c. c + of_nat m) x) \<rparr>"

section \<open>Reference element container and registry\<close>


























section \<open>Mapping trace factory\<close>

text \<open>
  The object a factory constructs: the implementation class, the subtopology it is
  instantiated over, and the argument of its constructor, \<open>mapping.trace< codim, i >()\<close>.
\<close>

datatype 't TraceImpl =
    VirtualMapping Topology 't
  | CachedMapping Topology 't

text \<open>
  A value of the function-pointer type \<open>Construct\<close>: the instantiation of
  \<open>HybridFactory::construct< i >\<close> or of \<open>NonHybridFactory::construct< i >\<close> it points to.
\<close>

datatype Construct =
    HybridFactory_construct nat
  | NonHybridFactory_construct nat

text \<open>
  What \<open>TraceProvider< Topology, GeometryTraits, codim, forceHybrid >\<close> takes from headers that
  are not among the sources is a parameter: \<open>IsCodimHybrid< Topology, codim >::value\<close>, the
  number of subtopologies \<open>Mapping::ReferenceElement::Codim< codim >::size\<close>, the subtopologies
  (in \<open>SubTopologies\<close>), and \<open>mapping.trace< codim, i >()\<close>.
\<close>

record ('mp, 't) TraceProvider =
  Topology_arg :: Topology
  codimension :: nat
  forceHybrid :: bool
  IsCodimHybrid :: bool
  numSubTopologies :: nat
  subtopologies :: SubTopologies
  mapping_trace :: "'mp \<Rightarrow> nat \<Rightarrow> nat \<Rightarrow> 't"

definition hybrid :: "('mp, 't) TraceProvider \<Rightarrow> bool" where
  "hybrid P = (forceHybrid P \<or> IsCodimHybrid P)"

text \<open>\<open>&(Factory::template construct< i >)\<close>, with \<open>Factory\<close> selected by \<open>hybrid\<close>.\<close>

definition Factory_construct :: "('mp, 't) TraceProvider \<Rightarrow> nat \<Rightarrow> Construct" where
  "Factory_construct P i =
     (if hybrid P then HybridFactory_construct i else NonHybridFactory_construct i)"

text \<open>
  The memory the buffers lie in: the object, if any, that has been constructed at an
  address.
\<close>

type_synonym 't memory = "nat \<Rightarrow> 't TraceImpl option"

text \<open>
  A call through a \<open>Construct\<close> pointer. Both factories construct with placement \<open>new\<close> at
  \<open>traceStorage\<close> and return that address: the hybrid one a \<open>VirtualMapping\<close> over the
  \<open>i\<close>-th subtopology, the other one a \<open>CachedMapping\<close> over the subtopology of index 0.
\<close>

fun call_Construct ::
  "('mp, 't) TraceProvider \<Rightarrow> Construct \<Rightarrow> 'mp \<Rightarrow> nat \<Rightarrow> 't memory \<Rightarrow> nat \<times> 't memory" where
  "call_Construct P (HybridFactory_construct i) the_mapping traceStorage mem =
     (traceStorage,
      mem(traceStorage \<mapsto>
        VirtualMapping (SubTopology (subtopologies P) (Topology_arg P) (codimension P) i)
          (mapping_trace P the_mapping (codimension P) i)))"
| "call_Construct P (NonHybridFactory_construct i) the_mapping traceStorage mem =
     (traceStorage,
      mem(traceStorage \<mapsto>
        CachedMapping (SubTopology (subtopologies P) (Topology_arg P) (codimension P) 0)
          (mapping_trace P the_mapping (codimension P) i)))"

text \<open>
  The constructor of \<open>TraceProvider\<close>: the array \<open>construct_\<close> of \<open>numSubTopologies\<close> pointers,
  not initialised, then \<open>ForLoop< Builder, 0, numSubTopologies-1 >\<close>, where \<open>Builder< i >::apply\<close>
  stores the pointer for \<open>i\<close>.
\<close>

definition Builder_apply :: "('mp, 't) TraceProvider \<Rightarrow> nat \<Rightarrow> Construct option list \<Rightarrow> Construct option list" where
  "Builder_apply P i table = table[i := Some (Factory_construct P i)]"

definition TraceProvider_ctor :: "('mp, 't) TraceProvider \<Rightarrow> Construct option list" where
  "TraceProvider_ctor P =
     fold (Builder_apply P) [0 ..< (numSubTopologies P - 1) + 1]
       (replicate (numSubTopologies P) None)"

text \<open>\<open>instance()\<close> with its function-local static, \<open>None\<close> before the first call.\<close>

definition TraceProvider_instance ::
  "('mp, 't) TraceProvider \<Rightarrow> Construct option list option
     \<Rightarrow> Construct option list \<times> Construct option list option" where
  "TraceProvider_instance P static =
     (case static of
        Some theInstance \<Rightarrow> (theInstance, static)
      | None \<Rightarrow> (TraceProvider_ctor P, Some (TraceProvider_ctor P)))"

text \<open>
  \<open>TraceProvider::construct( mapping, i, traceStorage )\<close>:
  \<open>(*instance().construct_[ i ])( mapping, traceStorage )\<close>.
\<close>

definition TraceProvider_construct ::
  "('mp, 't) TraceProvider \<Rightarrow> 'mp \<Rightarrow> nat \<Rightarrow> nat \<Rightarrow> 't memory \<Rightarrow> Construct option list option
     \<Rightarrow> error + (nat \<times> 't memory \<times> Construct option list option)" where
  "TraceProvider_construct P the_mapping i traceStorage mem static =
     (let (theInstance, static') = TraceProvider_instance P static
      in case get_at theInstance i of
           Inl e \<Rightarrow> Inl e
         | Inr None \<Rightarrow> Inl Uninitialized
         | Inr (Some f) \<Rightarrow>
             (let (trace, mem') = call_Construct P f the_mapping traceStorage mem
              in Inr (trace, mem', static')))"

text \<open>
  The codimension-1 traces of the pyramid over the square as an input: five faces, the
  square at index 0 and four triangles, a hybrid codimension.
\<close>

definition pyramid_faces :: "(nat, nat \<times> nat \<times> nat) TraceProvider" where
  "pyramid_faces =
     \<lparr> Topology_arg = Pyramid (Prism (Prism Point)),
       codimension = 1,
       forceHybrid = False,
       IsCodimHybrid = True,
       numSubTopologies = 5,
       subtopologies =
         \<lparr> SubTopology = (\<lambda>T codim i. if i = 0 then Prism (Prism Point) else Pyramid (Pyramid Point)),
           SubTopologySize = (\<lambda>T codim subcodim i. 1),
           GenericSubTopologyNumbering = (\<lambda>T codim subcodim i j. j) \<rparr>,
       mapping_trace = (\<lambda>m codim i. (m, codim, i)) \<rparr>"

section \<open>Properties of the shape-descriptor conversion\<close>

lemma fold_update_replicate:
  "n \<le> length xs \<Longrightarrow>
   fold (\<lambda>i ts. ts[i := v]) [0 ..< n] xs = replicate n v @ drop n xs"
proof (induction n)
  case 0
  then show ?case by simp
next
  case (Suc n)
  then have "fold (\<lambda>i ts. ts[i := v]) [0 ..< Suc n] xs = (replicate n v @ drop n xs)[n := v]"
    by simp
  also have "\<dots> = replicate n v @ (drop n xs)[0 := v]"
    by (simp add: list_update_append)
  also have "(drop n xs)[0 := v] = v # drop (Suc n) xs"
    using Suc.prems by (cases "drop n xs") (auto simp: drop_Suc drop_tl)
  finally show ?case
    by (simp add: replicate_append_same)
qed

lemma length_fold_update: "length (fold (\<lambda>i ts. ts[i := v]) js xs) = length xs"
  by (induction js arbitrary: xs) simp_all

lemma length_DuneGeometryTypeProvider:
  "length (DuneGeometryTypeProvider dimension linetype)
     = (if dimension \<ge> 1 then numTopologies dimension div 2 else numTopologies dimension)"
  by (simp add: DuneGeometryTypeProvider_def Let_def length_fold_update)

lemma xor_one_div_two: "((n::nat) XOR 1) div 2 = n div 2"
proof -
  have "drop_bit 1 (n XOR 1) = drop_bit 1 n XOR drop_bit 1 (1::nat)"
    by (rule drop_bit_xor)
  then show ?thesis
    by (simp add: drop_bit_eq_div)
qed

lemma xor_one_less:
  assumes "0 < dimension" and "(n::nat) < 2 ^ dimension"
  shows "n XOR 1 < 2 ^ dimension"
proof -
  from assms obtain k where k: "dimension = Suc k"
    by (cases dimension) auto
  with assms have "n div 2 < 2 ^ k"
    by (simp add: less_mult_imp_div_less)
  then have "(n XOR 1) div 2 < 2 ^ k"
    by (simp only: xor_one_div_two)
  then have "n XOR 1 < 2 * 2 ^ k"
    by (rule_tac ccontr) (simp add: not_less le_div_geq)
  then show ?thesis
    using k by simp
qed

lemma nth_four_updates:
  assumes "4 \<le> m" and "j < 2 * m"
  shows "((replicate (2 * m) n)[0 := s, m := p, m - 1 := y, 2 * m - 1 := c]) ! j
    = (if j = 0 then s else if j = 2 * m - 1 then c else if j = m then p
       else if j = m - 1 then y else (n::'a))"
proof -
  consider "j = 0" | "j = 2 * m - 1" | "j = m" | "j = m - 1"
    | "j \<noteq> 0" "j \<noteq> 2 * m - 1" "j \<noteq> m" "j \<noteq> m - 1" by blast
  then show ?thesis
  proof cases
    case 1
    with assms show ?thesis by (simp add: nth_list_update)
  next
    case 2
    with assms show ?thesis by (simp add: nth_list_update)
  next
    case 3
    moreover from assms have "m \<noteq> 2 * m - 1" by arith
    ultimately show ?thesis using assms by (simp add: nth_list_update)
  next
    case 4
    moreover from assms have "m - 1 \<noteq> 2 * m - 1" "m - 1 \<noteq> 0" "m - 1 \<noteq> m" by arith+
    ultimately show ?thesis using assms by (simp add: nth_list_update)
  next
    case 5
    with assms show ?thesis by (simp add: nth_list_update)
  qed
qed

lemma types_gt3:
  assumes "3 < dimension"
  shows "DuneGeometryTypeProvider dimension linetype =
    (replicate (2 * 2 ^ (dimension - 2)) (makeNone dimension))
      [0 := makeSimplex dimension, 2 ^ (dimension - 2) := GeometryType prism dimension,
       2 ^ (dimension - 2) - 1 := GeometryType pyramid dimension, 2 * 2 ^ (dimension - 2) - 1 := makeCube dimension]"
proof -
  define k where "k = dimension - 2"
  have k: "dimension = Suc (Suc k)"
    using assms by (simp add: k_def)
  have h: "numTopologies dimension div 2 = 2 * 2 ^ (dimension - 2)"
    using k by (simp add: numTopologies_def)
  have A: "DuneGeometryTypeProvider dimension linetype =
    (replicate (2 * 2 ^ (dimension - 2)) (makeNone dimension))
      [0 := makeSimplex dimension, 2 ^ (dimension - 2) := GeometryType prism dimension,
       2 ^ (dimension - 2) - 1 := GeometryType pyramid dimension, 2 ^ (dimension - 2 + 1) - 1 := makeCube dimension]"
    using assms by (simp add: DuneGeometryTypeProvider_def Let_def h fold_update_replicate)
  have e: "(2::nat) ^ (dimension - 2 + 1) = 2 * 2 ^ (dimension - 2)"
    by simp
  show ?thesis
    by (simp only: A e)
qed

lemma Topology_type_simplex: "Topology_type 0 dimension = Convert_simplex dimension"
  by (induction dimension) simp_all

lemma Topology_type_cube: "Topology_type (2 ^ dimension - 1) dimension = Convert_cube dimension"
proof (induction dimension)
  case 0
  then show ?case by simp
next
  case (Suc n)
  have "bit (mask (Suc n) :: nat) n"
    by (simp add: bit_mask_iff)
  then have b: "bit ((2::nat) ^ Suc n - 1) n"
    by (simp only: mask_eq_exp_minus_1)
  have "(2::nat) ^ Suc n - 1 = 2 ^ n + (2 ^ n - 1)"
    by simp
  then have m: "((2::nat) ^ Suc n - 1) mod 2 ^ n = 2 ^ n - 1"
    by (simp only: mod_add_self1) simp
  show ?case
    using Suc by (simp only: Topology_type.simps b m Convert_cube.simps if_True)
qed

text \<open>
  C10. For \<open>dim >= 1\<close> and \<open>topologyId < 2^dim\<close>, \<open>type( topologyId )\<close> equals
  \<open>type( topologyId ^ 1 )\<close>: the table is indexed by \<open>topologyId / 2\<close>, so the choice
  between prism and pyramid at recursion level 0 does not change the geometry type.
\<close>

theorem type_ignores_bit0:
  assumes "1 \<le> dimension" and "topologyId < 2 ^ dimension"
  shows "DuneGeometryTypeProvider_type dimension linetype (topologyId XOR 1)
           = DuneGeometryTypeProvider_type dimension linetype topologyId
         \<and> (\<exists>g. DuneGeometryTypeProvider_type dimension linetype topologyId = Inr g)"
proof -
  from assms have lt: "topologyId XOR 1 < 2 ^ dimension"
    by (intro xor_one_less) simp_all
  from assms have "topologyId div 2 < 2 ^ dimension div 2"
    by (cases dimension) (simp_all add: less_mult_imp_div_less)
  with assms lt show ?thesis
    by (simp add: DuneGeometryTypeProvider_type_def numTopologies_def xor_one_div_two get_at_def
        length_DuneGeometryTypeProvider del: One_nat_def)
qed

theorem type_ignores_bit0_witness:
  "DuneGeometryTypeProvider_type 3 simplex (4 XOR 1) = DuneGeometryTypeProvider_type 3 simplex 4
   \<and> (\<exists>g. DuneGeometryTypeProvider_type 3 simplex 4 = Inr g)"
  using type_ignores_bit0 [of 3 4 simplex] by simp

text \<open>
  C3, as stated: for \<open>dim > 3\<close>, \<open>type( topologyId )\<close> is the simplex type for the simplex,
  the cube type for the cube and the \<open>none\<close> type for every other id. It fails for
  \<open>dim = 4\<close> and \<open>topologyId = 8\<close>, the prism over the tetrahedron: the constructor's branch
  for \<open>dimension >= 3\<close> stores \<open>GeometryType( prism, 4 )\<close> at \<open>types_[ 4 ]\<close>.
\<close>

theorem type_dim_gt3_counterexample:
  "DuneGeometryTypeProvider_type 4 simplex 8 = Inr (GeometryType prism 4)
   \<and> GeometryType prism 4 \<noteq> makeNone 4
   \<and> Topology_type 8 4 = Prism (Pyramid (Pyramid (Pyramid Point)))
   \<and> Topology_type 8 4 \<noteq> Convert_simplex 4 \<and> Topology_type 8 4 \<noteq> Convert_cube 4"
  by code_simp

text \<open>
  C3, amended: for \<open>dim > 3\<close> and \<open>topologyId < 2^dim\<close>, \<open>type( topologyId )\<close> returns the
  simplex type for the ids 0 and 1, the cube type for the two largest ids, the value
  \<open>GeometryType( prism, dim )\<close> for the prism over the simplex (index \<open>2^(dim-2)\<close>), the value
  \<open>GeometryType( pyramid, dim )\<close> for the pyramid over the cube (index \<open>2^(dim-2) - 1\<close>), and
  the \<open>none\<close> type for every other id.
\<close>

theorem type_dim_gt3:
  assumes "3 < dimension" and "topologyId < 2 ^ dimension"
  shows "DuneGeometryTypeProvider_type dimension linetype topologyId =
    Inr (if topologyId div 2 = 0 then makeSimplex dimension
         else if topologyId div 2 = 2 * 2 ^ (dimension - 2) - 1 then makeCube dimension
         else if topologyId div 2 = 2 ^ (dimension - 2) then GeometryType prism dimension
         else if topologyId div 2 = 2 ^ (dimension - 2) - 1 then GeometryType pyramid dimension
         else makeNone dimension)"
proof -
  define k where "k = dimension - 4"
  have k: "dimension = Suc (Suc (Suc (Suc k)))"
    using assms by (simp add: k_def)
  define j where "j = topologyId div 2"
  define m :: nat where "m = 2 ^ (dimension - 2)"
  have j: "j < 2 * m"
    using assms k by (simp add: j_def m_def less_mult_imp_div_less)
  have p: "4 \<le> m"
    using k by (simp add: m_def)
  have "get_at (DuneGeometryTypeProvider dimension linetype) j =
      Inr (((replicate (2 * m) (makeNone dimension))
        [0 := makeSimplex dimension, m := GeometryType prism dimension,
         m - 1 := GeometryType pyramid dimension, 2 * m - 1 := makeCube dimension]) ! j)"
    using j by (simp add: get_at_def types_gt3 [OF assms(1)] m_def)
  also have "\<dots> = Inr (if j = 0 then makeSimplex dimension else if j = 2 * m - 1 then makeCube dimension
       else if j = m then GeometryType prism dimension
       else if j = m - 1 then GeometryType pyramid dimension else makeNone dimension)"
    by (simp only: nth_four_updates [OF p j])
  finally show ?thesis
    using assms(2) by (simp add: DuneGeometryTypeProvider_type_def numTopologies_def j_def m_def)
qed

theorem type_dim_gt3_witness:
  "DuneGeometryTypeProvider_type 4 cube 6 = Inr (GeometryType pyramid 4)
   \<and> DuneGeometryTypeProvider_type 4 cube 10 = Inr (makeNone 4)"
  using type_dim_gt3 [of 4 6 cube] type_dim_gt3 [of 4 10 cube] by simp

section \<open>Properties of the numbering converter\<close>

lemma provider_inverse_0: "provider_inverse 0"
  by code_simp

lemma provider_inverse_1: "provider_inverse 1"
  by code_simp

lemma provider_inverse_2: "provider_inverse 2"
  by code_simp

lemma provider_inverse_3: "provider_inverse 3"
  by code_simp

lemma provider_inverse_le3: "dimension \<le> 3 \<Longrightarrow> provider_inverse dimension"
proof -
  assume "dimension \<le> 3"
  then consider "dimension = 0" | "dimension = 1" | "dimension = 2" | "dimension = 3"
    by arith
  then show ?thesis
    by cases (simp_all only: provider_inverse_0 provider_inverse_1 provider_inverse_2
        provider_inverse_3)
qed

lemma builder_inverse_14: "builder_inverse 4 14"
  by code_simp

lemma builder_inverse_15: "builder_inverse 4 15"
  by code_simp

lemma inverse_tablesD:
  assumes "inverse_tables d2g g2d n" and "i < n"
  shows "d2g ! i < n" and "g2d ! (d2g ! i) = i" and "g2d ! i < n" and "d2g ! (g2d ! i) = i"
    and "length d2g = n" and "length g2d = n"
  using assms by (simp_all add: inverse_tables_def list_all_iff)

lemma provider_inverse_tables:
  assumes "provider_inverse dimension" and "topologyId < 2 ^ dimension" and "codim \<le> dimension"
  obtains inst where "MapNumberingProvider_instance dimension = Inr inst"
    and "inverse_tables (dune2generic_m inst ! topologyId ! codim)
           (generic2dune_m inst ! topologyId ! codim) (Size (Topology_type topologyId dimension) codim)"
proof -
  from assms(1) obtain inst where inst: "MapNumberingProvider_instance dimension = Inr inst"
    by (auto simp: provider_inverse_def split: sum.splits)
  from assms(1) have "\<forall>t\<in>set [0 ..< 2 ^ dimension]. \<forall>c\<in>set [0 ..< dimension + 1].
      inverse_tables (dune2generic_m inst ! t ! c) (generic2dune_m inst ! t ! c)
        (Size (Topology_type t dimension) c)"
    by (simp add: provider_inverse_def inst list_all_iff del: upt_Suc)
  moreover from assms have "topologyId \<in> set [0 ..< 2 ^ dimension]" and "codim \<in> set [0 ..< dimension + 1]"
    by (simp_all del: upt_Suc)
  ultimately have "inverse_tables (dune2generic_m inst ! topologyId ! codim)
           (generic2dune_m inst ! topologyId ! codim) (Size (Topology_type topologyId dimension) codim)"
    by blast
  with inst show ?thesis
    by (rule that)
qed

lemma provider_roundtrip:
  assumes "provider_inverse dimension" and "topologyId < 2 ^ dimension" and "codim \<le> dimension"
    and "i < Size (Topology_type topologyId dimension) codim"
  shows "\<exists>j. dune2generic dimension topologyId i codim = Inr j
             \<and> j < Size (Topology_type topologyId dimension) codim
             \<and> generic2dune dimension topologyId j codim = Inr i"
    and "\<exists>j. generic2dune dimension topologyId i codim = Inr j
             \<and> j < Size (Topology_type topologyId dimension) codim
             \<and> dune2generic dimension topologyId j codim = Inr i"
proof -
  from assms(1-3) obtain inst where inst: "MapNumberingProvider_instance dimension = Inr inst"
    and inv: "inverse_tables (dune2generic_m inst ! topologyId ! codim)
           (generic2dune_m inst ! topologyId ! codim) (Size (Topology_type topologyId dimension) codim)"
    by (rule provider_inverse_tables)
  note D = inverse_tablesD [OF inv assms(4)]
  from D assms show "\<exists>j. dune2generic dimension topologyId i codim = Inr j
             \<and> j < Size (Topology_type topologyId dimension) codim
             \<and> generic2dune dimension topologyId j codim = Inr i"
    by (simp add: dune2generic_def generic2dune_def inst numTopologies_def)
  from D assms show "\<exists>j. generic2dune dimension topologyId i codim = Inr j
             \<and> j < Size (Topology_type topologyId dimension) codim
             \<and> dune2generic dimension topologyId j codim = Inr i"
    by (simp add: dune2generic_def generic2dune_def inst numTopologies_def)
qed

lemma builder_roundtrip:
  assumes "builder_inverse dimension topologyId" and "codim \<le> dimension"
    and "i < Size (Topology_type topologyId dimension) codim"
  shows "\<exists>d2g g2d. Builder_Codim (Topology_type topologyId dimension) codim = Inr (d2g, g2d)
           \<and> d2g ! i < Size (Topology_type topologyId dimension) codim \<and> g2d ! (d2g ! i) = i
           \<and> g2d ! i < Size (Topology_type topologyId dimension) codim \<and> d2g ! (g2d ! i) = i"
proof -
  from assms(1) have "\<forall>c\<in>set [0 ..< dimension + 1].
      (case Builder_Codim (Topology_type topologyId dimension) c of
          Inl e \<Rightarrow> False
        | Inr (d2g, g2d) \<Rightarrow> inverse_tables d2g g2d (Size (Topology_type topologyId dimension) c))"
    by (simp add: builder_inverse_def list_all_iff del: upt_Suc)
  moreover from assms(2) have "codim \<in> set [0 ..< dimension + 1]"
    by (simp del: upt_Suc)
  ultimately have "case Builder_Codim (Topology_type topologyId dimension) codim of
          Inl e \<Rightarrow> False
        | Inr (d2g, g2d) \<Rightarrow> inverse_tables d2g g2d (Size (Topology_type topologyId dimension) codim)"
    by blast
  then obtain d2g g2d
    where b: "Builder_Codim (Topology_type topologyId dimension) codim = Inr (d2g, g2d)"
      and inv: "inverse_tables d2g g2d (Size (Topology_type topologyId dimension) codim)"
    by (auto split: sum.splits)
  from inverse_tablesD [OF inv assms(3)] b show ?thesis
    by simp
qed

lemma instance_4: "MapNumberingProvider_instance 4 = Inl NotInstantiable"
  by code_simp

lemma no_numbering_4: "list_all (\<lambda>t. MapNumbering (Topology_type t 4) = None) [0 ..< 14]"
  by code_simp

lemma no_numbering_4D:
  assumes "topologyId < 14"
  shows "MapNumbering (Topology_type topologyId 4) = None"
proof -
  from assms have "topologyId \<in> set [0 ..< 14]"
    by simp
  with no_numbering_4 show ?thesis
    unfolding list_all_iff by blast
qed

lemma dune2generic_4: "dune2generic 4 topologyId i codim = Inl NotInstantiable"
  by (simp add: dune2generic_def instance_4)

text \<open>
  C1, as stated: for every \<open>dim <= 4\<close>, \<open>topologyId < 2^dim\<close>, \<open>codim <= dim\<close> and
  \<open>i < size(codim)\<close>, the two precomputed maps undo each other. It fails for \<open>dim = 4\<close> and
  \<open>topologyId = 0\<close>, the 4-simplex: \<open>MapNumbering\<close> has no specialisation for it, so the
  provider of dimension 4 has no tables and \<open>dune2generic( 0, 0, 0 )\<close> yields no index.
\<close>

theorem numbering_counterexample:
  "dune2generic 4 0 0 0 = Inl NotInstantiable
   \<and> MapNumbering (Topology_type 0 4) = None
   \<and> 0 < Size (Topology_type 0 4) 0"
  by code_simp

text \<open>
  C1, amended: for every \<open>dim <= 3\<close>, \<open>topologyId < 2^dim\<close>, \<open>codim <= dim\<close> and
  \<open>i < size(codim)\<close>, \<open>dune2generic\<close> and \<open>generic2dune\<close> of the provider return indices below
  \<open>size(codim)\<close> and undo each other in both orders. In dimension 4 only the hypercube
  (ids 14 and 15) has a numbering; the two tables \<open>Builder::Codim\<close> fills for it from
  \<open>MapNumbering4DCube\<close> are permutations of \<open>[0, size(codim))\<close> that undo each other. The other
  topologies of dimension 4 have no \<open>MapNumbering\<close>, and the provider of dimension 4 cannot be
  instantiated.
\<close>

theorem numbering_maps_inverse:
  assumes "topologyId < 2 ^ dimension" and "codim \<le> dimension"
    and "i < Size (Topology_type topologyId dimension) codim"
  shows "(dimension \<le> 3 \<longrightarrow>
            (\<exists>j. dune2generic dimension topologyId i codim = Inr j
                 \<and> j < Size (Topology_type topologyId dimension) codim
                 \<and> generic2dune dimension topologyId j codim = Inr i)
          \<and> (\<exists>j. generic2dune dimension topologyId i codim = Inr j
                 \<and> j < Size (Topology_type topologyId dimension) codim
                 \<and> dune2generic dimension topologyId j codim = Inr i))
       \<and> (dimension = 4 \<and> 14 \<le> topologyId \<longrightarrow>
            (\<exists>d2g g2d. Builder_Codim (Topology_type topologyId dimension) codim = Inr (d2g, g2d)
                 \<and> d2g ! i < Size (Topology_type topologyId dimension) codim \<and> g2d ! (d2g ! i) = i
                 \<and> g2d ! i < Size (Topology_type topologyId dimension) codim \<and> d2g ! (g2d ! i) = i))
       \<and> (dimension = 4 \<and> topologyId < 14 \<longrightarrow>
            MapNumbering (Topology_type topologyId dimension) = None
            \<and> dune2generic dimension topologyId i codim = Inl NotInstantiable)"
proof (intro conjI impI)
  assume "dimension \<le> 3"
  then have p: "provider_inverse dimension"
    by (rule provider_inverse_le3)
  from provider_roundtrip(1) [OF p assms]
  show "\<exists>j. dune2generic dimension topologyId i codim = Inr j
                 \<and> j < Size (Topology_type topologyId dimension) codim
                 \<and> generic2dune dimension topologyId j codim = Inr i" .
  from provider_roundtrip(2) [OF p assms]
  show "\<exists>j. generic2dune dimension topologyId i codim = Inr j
                 \<and> j < Size (Topology_type topologyId dimension) codim
                 \<and> dune2generic dimension topologyId j codim = Inr i" .
next
  assume a: "dimension = 4 \<and> 14 \<le> topologyId"
  with assms(1) have "topologyId = 14 \<or> topologyId = 15"
    by auto
  with a have "builder_inverse dimension topologyId"
    by (auto simp only: builder_inverse_14 builder_inverse_15)
  from builder_roundtrip [OF this assms(2,3)]
  show "\<exists>d2g g2d. Builder_Codim (Topology_type topologyId dimension) codim = Inr (d2g, g2d)
                 \<and> d2g ! i < Size (Topology_type topologyId dimension) codim \<and> g2d ! (d2g ! i) = i
                 \<and> g2d ! i < Size (Topology_type topologyId dimension) codim \<and> d2g ! (g2d ! i) = i" .
next
  assume "dimension = 4 \<and> topologyId < 14"
  then show "MapNumbering (Topology_type topologyId dimension) = None"
    by (simp add: no_numbering_4D)
next
  assume "dimension = 4 \<and> topologyId < 14"
  then show "dune2generic dimension topologyId i codim = Inl NotInstantiable"
    by (simp add: dune2generic_4)
qed

theorem numbering_maps_inverse_witness:
  "(\<exists>j. dune2generic 3 2 1 1 = Inr j \<and> j < Size (Topology_type 2 3) 1
        \<and> generic2dune 3 2 j 1 = Inr 1)
   \<and> (\<exists>d2g g2d. Builder_Codim (Topology_type 15 4) 2 = Inr (d2g, g2d) \<and> g2d ! (d2g ! 6) = 6)
   \<and> MapNumbering (Topology_type 5 4) = None"
proof -
  have a: "(2::nat) < 2 ^ 3" "(1::nat) \<le> 3" "1 < Size (Topology_type 2 3) 1"
    by code_simp+
  have b: "(15::nat) < 2 ^ 4" "(2::nat) \<le> 4" "6 < Size (Topology_type 15 4) 2"
    by code_simp+
  have c: "(5::nat) < 2 ^ 4" "(0::nat) \<le> 4" "0 < Size (Topology_type 5 4) 0"
    by code_simp+
  from numbering_maps_inverse [OF a] numbering_maps_inverse [OF b] numbering_maps_inverse [OF c]
  show ?thesis
    by auto
qed

section \<open>Properties of the reference element\<close>

lemma dimension_Topology_type: "Topology_dimension (Topology_type topologyId dimension) = dimension"
  by (induction dimension arbitrary: topologyId) simp_all

lemma Size_zero: "Size T 0 = 1"
  by (cases T) simp_all

lemma Size_dimension: "Size T (Topology_dimension T) = Topology_numCorners T"
  by (induction T) simp_all

lemma Topology_numCorners_simplex:
  "topologyId < 2 \<Longrightarrow> Topology_numCorners (Topology_type topologyId dimension) = dimension + 1"
proof (induction dimension)
  case 0
  then show ?case by simp
next
  case (Suc n)
  show ?case
  proof (cases n)
    case 0
    then show ?thesis by simp
  next
    case (Suc k)
    have "(2::nat) \<le> 2 ^ n"
      using Suc by simp
    with Suc.prems have lt: "topologyId < 2 ^ n"
      by simp
    then have "\<not> bit topologyId n"
      by (simp add: bit_iff_odd)
    with lt Suc.IH Suc.prems show ?thesis
      by simp
  qed
qed

lemma Topology_numCorners_cube:
  "topologyId < 2 ^ dimension \<Longrightarrow> 2 ^ dimension \<le> topologyId + 2
     \<Longrightarrow> Topology_numCorners (Topology_type topologyId dimension) = 2 ^ dimension"
proof (induction dimension arbitrary: topologyId)
  case 0
  then show ?case by simp
next
  case (Suc n)
  show ?case
  proof (cases n)
    case 0
    then show ?thesis by simp
  next
    case (Suc k)
    have two: "(2::nat) \<le> 2 ^ n"
      using Suc by simp
    with Suc.prems have ge: "2 ^ n \<le> topologyId"
      by simp
    with Suc.prems have d: "topologyId div 2 ^ n = 1"
      by (simp add: div_nat_eqI)
    then have b: "bit topologyId n"
      by (simp add: bit_iff_odd)
    have "topologyId mod 2 ^ n = (topologyId - 2 ^ n) mod 2 ^ n"
      using ge by (rule le_mod_geq)
    also have "\<dots> = topologyId - 2 ^ n"
      using Suc.prems by simp
    finally have m: "topologyId mod 2 ^ n = topologyId - 2 ^ n" .
    have "Topology_numCorners (Topology_type (topologyId - 2 ^ n) n) = 2 ^ n"
      using Suc.prems ge two by (intro Suc.IH) simp_all
    with b m show ?thesis
      by simp
  qed
qed

lemma initializeTopology_base_Inr:
  "initializeTopology_base tb dimension (Topology_type topologyId dimension)
     = Inr (map (Initialize_Codim tb dimension (Topology_type topologyId dimension)) [0 ..< dimension + 1])"
  by (simp add: initializeTopology_base_def dimension_Topology_type)

lemma size1_info:
  "c \<le> dimension \<Longrightarrow> size1 dimension (map (Initialize_Codim tb dimension T) [0 ..< dimension + 1]) c = Inr (Size T c)"
  by (simp add: size1_def Initialize_Codim_def del: upt_Suc)

text \<open>
  C5. For every \<open>topologyId < 2^dim\<close> the reference element initialised from that topology
  has \<open>size(0) = 1\<close>, and \<open>size(dim)\<close> is the number of corners of the shape: \<open>dim + 1\<close> for
  the simplex (ids 0 and 1) and \<open>2^dim\<close> for the cube (the two largest ids).
\<close>

theorem size_closed_forms:
  assumes "topologyId < 2 ^ dimension"
  shows "\<exists>info. initializeTopology_base tb dimension (Topology_type topologyId dimension) = Inr info
     \<and> size1 dimension info 0 = Inr 1
     \<and> size1 dimension info dimension = Inr (Topology_numCorners (Topology_type topologyId dimension))
     \<and> (topologyId < 2 \<longrightarrow> size1 dimension info dimension = Inr (dimension + 1))
     \<and> (2 ^ dimension \<le> topologyId + 2 \<longrightarrow> size1 dimension info dimension = Inr (2 ^ dimension))"
proof -
  let ?T = "Topology_type topologyId dimension"
  let ?info = "map (Initialize_Codim tb dimension ?T) [0 ..< dimension + 1]"
  have a: "size1 dimension ?info 0 = Inr 1"
    by (simp only: size1_info [of 0 dimension] le0 Size_zero)
  have "size1 dimension ?info dimension = Inr (Size ?T (Topology_dimension ?T))"
    by (simp only: size1_info [of dimension dimension] order_refl dimension_Topology_type)
  then have b: "size1 dimension ?info dimension = Inr (Topology_numCorners ?T)"
    by (simp only: Size_dimension)
  have c: "topologyId < 2 \<longrightarrow> size1 dimension ?info dimension = Inr (dimension + 1)"
    using b by (simp add: Topology_numCorners_simplex)
  have d: "2 ^ dimension \<le> topologyId + 2 \<longrightarrow> size1 dimension ?info dimension = Inr (2 ^ dimension)"
    using b assms by (simp add: Topology_numCorners_cube)
  from a b c d show ?thesis
    by (intro exI [of _ ?info] conjI) (rule initializeTopology_base_Inr)
qed

theorem size_closed_forms_witness:
  "(\<exists>info. initializeTopology_base triangle_tables 2 (Topology_type 3 2) = Inr info
      \<and> size1 2 info 0 = Inr 1 \<and> size1 2 info 2 = Inr 4)
   \<and> (\<exists>info. initializeTopology_base triangle_tables 2 (Topology_type 0 2) = Inr info
      \<and> size1 2 info 0 = Inr 1 \<and> size1 2 info 2 = Inr 3)"
proof -
  have a: "(3::nat) < 2 ^ 2" and b: "(0::nat) < 2 ^ 2"
    by simp_all
  from size_closed_forms [OF a, of triangle_tables] size_closed_forms [OF b, of triangle_tables]
  show ?thesis
    by auto
qed

text \<open>
  Once the static holds a count \<open>n\<close>, the barycenter of a subentity with fewer than \<open>n\<close>
  corners is an out-of-range read, whatever the tables are.
\<close>

lemma size3_InrD:
  assumes "size3 dimension info i codim dimension = Inr k"
  obtains sub where "codim \<le> dimension" and "get_at (info ! codim) i = Inr sub"
    and "codim_m sub \<le> dimension" and "length (numbering_m sub ! dimension) = k"
  using assms
  by (auto simp: size3_def SubEntityInfo_size_def split: if_splits sum.splits)

lemma subEntity_vertices:
  assumes "size3 dimension info i codim dimension = Inr k"
  shows "\<exists>vs. length vs = k \<and> (\<forall>j. subEntity dimension info i codim j dimension = get_at vs j)"
proof -
  from assms obtain sub where s: "codim \<le> dimension" "get_at (info ! codim) i = Inr sub"
      "codim_m sub \<le> dimension" "length (numbering_m sub ! dimension) = k"
    by (rule size3_InrD)
  then have "\<forall>j. subEntity dimension info i codim j dimension = get_at (numbering_m sub ! dimension) j"
    by (simp add: subEntity_def SubEntityInfo_number_def)
  with s(4) show ?thesis
    by blast
qed

lemma add_corners_out_of_range:
  assumes "\<forall>j. subEntity dimension info i codim j dimension = get_at vs j"
    and "\<exists>j\<in>set js. length vs \<le> j"
  shows "add_corners dimension info corners codim i js acc = Inl OutOfRange"
  using assms(2)
proof (induction js arbitrary: acc)
  case Nil
  then show ?case by simp
next
  case (Cons j js)
  show ?case
  proof (cases "j < length vs")
    case False
    with assms(1) show ?thesis
      by (simp add: get_at_def)
  next
    case True
    with Cons.prems have rest: "\<exists>j\<in>set js. length vs \<le> j"
      by auto
    show ?thesis
    proof (cases "vs ! j < length corners")
      case False
      with True assms(1) show ?thesis
        by (simp add: get_at_def)
    next
      case c: True
      with True assms(1) Cons.IH [OF rest] show ?thesis
        by (simp add: get_at_def)
    qed
  qed
qed

lemma barycenter_stale_count:
  assumes "size3 dimension info i codim dimension = Inr k" and "k < n"
  shows "barycenter dimension info corners codim i (Some n) = Inl OutOfRange"
proof -
  from subEntity_vertices [OF assms(1)] obtain vs where vs: "length vs = k"
      "\<forall>j. subEntity dimension info i codim j dimension = get_at vs j"
    by blast
  from assms(2) vs(1) have "\<exists>j\<in>set [0 ..< n]. length vs \<le> j"
    by auto
  from add_corners_out_of_range [OF vs(2) this] show ?thesis
    by (simp add: barycenter_def)
qed

text \<open>
  C2 says that \<open>position(i, c)\<close> is the mean of the corners of subentity \<open>(i, c)\<close>. On the
  reference triangle the count of corners is taken once, for the cell (3 corners), because
  the variable is static; the barycenter of the cell is right, but for edge 0, which has 2
  corners, the loop reads a third entry of its 2-entry vertex list, so the initialisation
  does not return. With the count taken for the edge itself the result would be the
  midpoint \<open>(1/2, 0)\<close>.
\<close>

theorem static_numCorners_triangle:
  "(case initializeTopology_base triangle_tables 2 (Topology_type 0 2) of
      Inl e \<Rightarrow> False
    | Inr info \<Rightarrow>
        size3 2 info 0 1 2 = Inr 2
        \<and> barycenter 2 info (map (corner triangle_domain) [0 ..< 3]) 0 0 None
              = Inr ([1 / 3, 1 / 3], Some 3)
        \<and> barycenter 2 info (map (corner triangle_domain) [0 ..< 3]) 1 0 (Some 3)
              = Inl OutOfRange
        \<and> barycenter 2 info (map (corner triangle_domain) [0 ..< 3]) 1 0 None
              = Inr ([1 / 2, 0], Some 2))
   \<and> initializeTopology triangle_tables triangle_domain unit_mappings 2 (Topology_type 0 2) None
         = Inl OutOfRange"
  by code_simp

section \<open>Properties of embeddings and destruction\<close>

lemma Destroy_loop_eq:
  "Destroy_loop codim row js events
     = events @ concat (map (\<lambda>i. [DestructorCall codim i (row ! i), DeleteArray codim i (row ! i)]) js)"
  by (induction js arbitrary: events) simp_all

lemma fold_Destroy_eq:
  "fold (Destroy mappings) cs events
     = events @ concat (map (\<lambda>codim. concat (map
         (\<lambda>i. [DestructorCall codim i (mappings ! codim ! i), DeleteArray codim i (mappings ! codim ! i)])
         [0 ..< length (mappings ! codim)])) cs)"
  by (induction cs arbitrary: events) (simp_all add: Destroy_def Destroy_loop_eq)

text \<open>
  C8, as stated: each placed mapping has its destructor called before its buffer is
  released, the codimension levels are destroyed in reverse codimension order, and the
  codimension-0 mapping is handled apart. On an element with three mappings in each of the
  codimensions 1 and 2 the order of the levels is 1, 2, 0, not 2, 1, 0.
\<close>

theorem destruction_order_counterexample:
  "destructor 2 example_element =
     [DestructorCall 1 0 20, DeleteArray 1 0 20, DestructorCall 1 1 21, DeleteArray 1 1 21,
      DestructorCall 1 2 22, DeleteArray 1 2 22, DestructorCall 2 0 30, DeleteArray 2 0 30,
      DestructorCall 2 1 31, DeleteArray 2 1 31, DestructorCall 2 2 32, DeleteArray 2 2 32,
      Delete 10]
   \<and> remdups_adj (map event_codim (destructor 2 example_element)) = [1, 2, 0]
   \<and> remdups_adj (map event_codim (destructor 2 example_element)) \<noteq> [2, 1, 0]"
  by code_simp

text \<open>
  C8, amended: the destructor handles the codimensions 1 to \<open>dim\<close> in increasing order; within
  a codimension, for each subentity in turn, it calls the destructor of the placed mapping
  and directly afterwards releases that mapping's buffer; the codimension-0 mapping is the
  only one handled apart, by a plain \<open>delete\<close> at the very end, if it exists.
\<close>

theorem destruction_order:
  "destructor dimension E
     = concat (map (\<lambda>codim. concat (map
         (\<lambda>i. [DestructorCall codim i (mappings_m E ! codim ! i),
               DeleteArray codim i (mappings_m E ! codim ! i)])
         [0 ..< length (mappings_m E ! codim)])) [1 ..< dimension + 1])
       @ (if mappings_m E ! 0 = [] then [] else [Delete (mappings_m E ! 0 ! 0)])"
  by (simp add: destructor_def fold_Destroy_eq Let_def del: upt_Suc)

text \<open>
  C7. \<open>global< codim >( local, i, c )\<close> throws an exception exactly when \<open>c\<close> differs from
  \<open>codim\<close>. When they agree it is \<open>mapping< codim >( i ).global( local )\<close> with the coordinate
  passed on as it is: for an index of a subentity, the result of the mapping's \<open>global\<close>. The
  element is an argument that is only read.
\<close>

theorem global_codim_check:
  "((\<exists>msg. global mp E codim local i c = Inl (Exception msg)) \<longleftrightarrow> c \<noteq> int codim)
   \<and> (c = int codim \<longrightarrow>
        global mp E codim local i c =
          (case mapping E codim i of Inl e \<Rightarrow> Inl e | Inr m \<Rightarrow> Inr (mapping_global mp m local)))
   \<and> (c = int codim \<and> codim < length (mappings_m E) \<and> 0 \<le> i
        \<and> nat i < length (mappings_m E ! codim) \<longrightarrow>
        global mp E codim local i c
          = Inr (mapping_global mp (mappings_m E ! codim ! nat i) local))"
  by (auto simp: global_def mapping_def get_at_def split: sum.splits)

theorem global_codim_check_witness:
  "(2::int) \<noteq> int 1
   \<and> (\<exists>msg. global example_mappings example_element 1 [1 / 2] 1 2 = Inl (Exception msg))
   \<and> global example_mappings example_element 1 [1 / 2] 1 1 = Inr [43 / 2]"
proof -
  have a: "(1::int) = int 1 \<and> 1 < length (mappings_m example_element) \<and> (0::int) \<le> 1
      \<and> nat 1 < length (mappings_m example_element ! 1)"
    by (simp add: example_element_def)
  have "global example_mappings example_element 1 [1 / 2] 1 1
      = Inr (mapping_global example_mappings (mappings_m example_element ! 1 ! nat 1) [1 / 2])"
    using global_codim_check [of example_mappings example_element 1 "[1 / 2]" 1 1] a by blast
  then have b: "global example_mappings example_element 1 [1 / 2] 1 1 = Inr [43 / 2]"
    by (simp add: example_element_def example_mappings_def)
  have c: "\<exists>msg. global example_mappings example_element 1 [1 / 2] 1 2 = Inl (Exception msg)"
    using global_codim_check [of example_mappings example_element 1 "[1 / 2]" 1 2] by simp
  from b c show ?thesis
    by simp
qed

section \<open>Properties of the container and the registry\<close>











section \<open>Properties of the mapping trace factory\<close>

lemma length_fold_update_fun: "length (fold (\<lambda>i ts. ts[i := g i]) js xs) = length xs"
  by (induction js arbitrary: xs) simp_all

lemma nth_fold_update_fun:
  "i < n \<Longrightarrow> n \<le> length xs \<Longrightarrow> fold (\<lambda>i ts. ts[i := g i]) [0 ..< n] xs ! i = g i"
proof (induction n)
  case 0
  then show ?case by simp
next
  case (Suc n)
  show ?case
  proof (cases "i = n")
    case True
    with Suc.prems show ?thesis
      by (simp add: length_fold_update_fun)
  next
    case False
    with Suc.prems have "i < n" and "n \<le> length xs"
      by simp_all
    with Suc.IH False show ?thesis
      by simp
  qed
qed

lemma TraceProvider_ctor_nth:
  assumes "i < numSubTopologies P"
  shows "get_at (TraceProvider_ctor P) i = Inr (Some (Factory_construct P i))"
proof -
  from assms have n: "(numSubTopologies P - 1) + 1 = numSubTopologies P"
    by simp
  have b: "Builder_apply P = (\<lambda>i ts. ts[i := Some (Factory_construct P i)])"
    by (simp add: fun_eq_iff Builder_apply_def)
  from assms show ?thesis
    unfolding TraceProvider_ctor_def n b
    by (simp add: get_at_def length_fold_update_fun nth_fold_update_fun)
qed

text \<open>
  C6. For \<open>i < numSubTopologies\<close>, entry \<open>i\<close> of the table the constructor fills is the
  pointer to \<open>Factory::construct< i >\<close>, and \<open>construct( mapping, i, traceStorage )\<close>, on the
  first call or later, calls it: the trace is constructed at \<open>traceStorage\<close>, the address
  returned, as a \<open>VirtualMapping\<close> over the \<open>i\<close>-th subtopology in hybrid mode and as a
  \<open>CachedMapping\<close> over the subtopology of index 0 otherwise, from \<open>mapping.trace< codim, i >()\<close>.
\<close>

theorem construct_dispatch:
  assumes "i < numSubTopologies P"
    and "static = None \<or> static = Some (TraceProvider_ctor P)"
  shows "get_at (TraceProvider_ctor P) i = Inr (Some (Factory_construct P i))
     \<and> TraceProvider_construct P the_mapping i traceStorage mem static =
         Inr (traceStorage,
              mem(traceStorage \<mapsto>
                (if hybrid P
                 then VirtualMapping (SubTopology (subtopologies P) (Topology_arg P) (codimension P) i)
                        (mapping_trace P the_mapping (codimension P) i)
                 else CachedMapping (SubTopology (subtopologies P) (Topology_arg P) (codimension P) 0)
                        (mapping_trace P the_mapping (codimension P) i))),
              Some (TraceProvider_ctor P))"
proof -
  note nth = TraceProvider_ctor_nth [OF assms(1)]
  from assms(2) have "TraceProvider_instance P static = (TraceProvider_ctor P, Some (TraceProvider_ctor P))"
    by (auto simp: TraceProvider_instance_def)
  then show ?thesis
    by (simp add: TraceProvider_construct_def nth Factory_construct_def)
qed

theorem construct_dispatch_witness:
  "TraceProvider_construct pyramid_faces 7 2 100 Map.empty None =
     Inr (100, [100 \<mapsto> VirtualMapping (Pyramid (Pyramid Point)) (7, 1, 2)],
          Some (TraceProvider_ctor pyramid_faces))
   \<and> TraceProvider_construct (pyramid_faces \<lparr> IsCodimHybrid := False \<rparr>) 7 2 100 Map.empty
       (Some (TraceProvider_ctor (pyramid_faces \<lparr> IsCodimHybrid := False \<rparr>))) =
     Inr (100, [100 \<mapsto> CachedMapping (Prism (Prism Point)) (7, 1, 2)],
          Some (TraceProvider_ctor (pyramid_faces \<lparr> IsCodimHybrid := False \<rparr>)))"
proof -
  have a: "2 < numSubTopologies pyramid_faces"
    and b: "2 < numSubTopologies (pyramid_faces \<lparr> IsCodimHybrid := False \<rparr>)"
    by (simp_all add: pyramid_faces_def)
  have h: "hybrid pyramid_faces" and n: "\<not> hybrid (pyramid_faces \<lparr> IsCodimHybrid := False \<rparr>)"
    by (simp_all add: hybrid_def pyramid_faces_def)
  from construct_dispatch [OF a, of None 7 100 Map.empty] h
  have "TraceProvider_construct pyramid_faces 7 2 100 Map.empty None =
     Inr (100, [100 \<mapsto> VirtualMapping (Pyramid (Pyramid Point)) (7, 1, 2)],
          Some (TraceProvider_ctor pyramid_faces))"
    by (simp add: pyramid_faces_def)
  moreover from construct_dispatch [OF b, of "Some (TraceProvider_ctor (pyramid_faces \<lparr> IsCodimHybrid := False \<rparr>))"
      7 100 Map.empty] n
  have "TraceProvider_construct (pyramid_faces \<lparr> IsCodimHybrid := False \<rparr>) 7 2 100 Map.empty
       (Some (TraceProvider_ctor (pyramid_faces \<lparr> IsCodimHybrid := False \<rparr>))) =
     Inr (100, [100 \<mapsto> CachedMapping (Prism (Prism Point)) (7, 1, 2)],
          Some (TraceProvider_ctor (pyramid_faces \<lparr> IsCodimHybrid := False \<rparr>)))"
    by (simp add: pyramid_faces_def)
  ultimately show ?thesis
    by simp
qed

end
